theory Spec2Isabelle
  imports Main "HOL-Library.AList" "HOL-Library.Sublist" "HOL-Library.Multiset"
begin

section \<open>JavaScript values used by the movie service and the timeline\<close>

text \<open>
  Strings are \<open>string\<close>: lists of 8-bit characters, read as the UTF-16 code units below
  256 (the Latin-1 range); strings with other code units are outside the model.
  On that range \<open>toLowerCase\<close> folds \<open>A\<close>..\<open>Z\<close> (65..90) and the accented capitals
  192..214 and 216..222 to the code unit 32 above, and \<open>trim\<close> removes tab, line feed,
  vertical tab, form feed, carriage return, space and no-break space (160) at both ends.
  \<open>str_includes h n\<close> is \<open>h.includes(n)\<close>: \<open>n\<close> occurs in \<open>h\<close> as a contiguous
  substring. A string is truthy when it is not empty.
\<close>

definition isUpper :: "nat \<Rightarrow> bool" where
  "isUpper n = ((65 \<le> n \<and> n \<le> 90) \<or> (192 \<le> n \<and> n \<le> 214) \<or> (216 \<le> n \<and> n \<le> 222))"

definition toLowerCase :: "string \<Rightarrow> string" where
  "toLowerCase s =
     map (\<lambda>c. let n = (of_char c :: nat) in if isUpper n then char_of (n + 32) else c) s"

definition isSpace :: "char \<Rightarrow> bool" where
  "isSpace c = ((of_char c :: nat) \<in> {9, 10, 11, 12, 13, 32, 160})"

definition trim :: "string \<Rightarrow> string" where
  "trim s = rev (dropWhile isSpace (rev (dropWhile isSpace s)))"

definition str_includes :: "string \<Rightarrow> string \<Rightarrow> bool" where
  "str_includes hay needle = sublist needle hay"

text \<open>
  A JavaScript number is \<open>NaN\<close> or an integer value (\<open>Date.getTime()\<close> yields whole
  milliseconds or \<open>NaN\<close>; integers are exact in a double up to \<open>2^53\<close>).
  \<open>NaN\<close> and \<open>0\<close> are falsy, and every comparison with \<open>NaN\<close> is false.
\<close>

datatype jsnum = NaN | Num int

fun truthy :: "jsnum \<Rightarrow> bool" where
  "truthy NaN = False"
| "truthy (Num n) = (n \<noteq> 0)"

fun js_plus :: "jsnum \<Rightarrow> int \<Rightarrow> jsnum" where
  "js_plus NaN b = NaN"
| "js_plus (Num a) b = Num (a + b)"

fun js_ge :: "jsnum \<Rightarrow> jsnum \<Rightarrow> bool" where
  "js_ge (Num a) (Num b) = (a \<ge> b)"
| "js_ge _ _ = False"

text \<open>Template-literal rendering of an integer number, as in \<open>`${film.releaseYear}-01-01`\<close>.\<close>

definition digitChar :: "nat \<Rightarrow> char" where
  "digitChar n = char_of (48 + n)"

function natToString :: "nat \<Rightarrow> string" where
  "natToString n = (if n < 10 then [digitChar n] else natToString (n div 10) @ [digitChar (n mod 10)])"
  by pat_completeness auto
termination
  by (relation "measure (\<lambda>n. n)") auto

definition numberToString :: "int \<Rightarrow> string" where
  "numberToString i = (if i < 0 then CHR ''-'' # natToString (nat (- i)) else natToString (nat i))"

text \<open>\<open>Array.from(new Set(xs))\<close>: the distinct elements in order of first insertion.\<close>

definition setAdd :: "'a \<Rightarrow> 'a list \<Rightarrow> 'a list" where
  "setAdd x acc = (if x \<in> set acc then acc else acc @ [x])"

definition arrayFromSet :: "'a list \<Rightarrow> 'a list" where
  "arrayFromSet xs = fold setAdd xs []"

section \<open>Data model (types/Movie)\<close>

record CinevilleAsset =
  url :: string
  mime :: "string option"
  alternativeText :: "string option"

record CinevilleAddress =
  city :: string
  country :: string

record CinevilleTheater =
  theater_id :: string
  theater_name :: string
  address :: CinevilleAddress

record CinevilleFilm =
  film_id :: string
  film_title :: string
  cover :: "CinevilleAsset option"
  poster :: "CinevilleAsset option"
  film_cast :: "string list option"
  film_duration :: int
  film_directors :: "string list option"
  film_releaseYear :: int
  film_spokenLanguages :: "string option list option"
  premiereDate :: "string option"
  shortDescription :: string
  description :: string

record CinevilleShowtime =
  showtime_id :: string
  film :: CinevilleFilm
  theater :: CinevilleTheater
  startDate :: string
  endDate :: string
  subtitles :: string
  languageVersion :: "string option"
  ticketingUrl :: "string option"
  specials :: "string option"

record MovieShowtime =
  st_id :: string
  st_startDate :: string
  st_endDate :: string
  st_theaterId :: string
  st_theaterName :: string
  st_theaterCity :: string
  st_ticketingUrl :: "string option"
  st_specials :: "string option"
  st_subtitles :: string
  st_languageVersion :: "string option"

record Movie =
  movie_id :: string
  title :: string
  poster_path :: string
  release_date :: string
  overview :: string
  vote_average :: int
  genre_ids :: "int list"
  duration :: int
  directors :: "string list"
  cast :: "string list"
  releaseYear :: int
  spokenLanguages :: "string list"
  availableSubtitles :: "string list"
  availableLanguageVersions :: "string list"
  availableSpecials :: "string list"
  showtimes :: "MovieShowtime list"

record MovieResponse =
  page :: nat
  results :: "Movie list"
  total_pages :: nat
  total_results :: nat

record MovieFilters =
  selectedCity :: "string option"
  selectedTheaters :: "string list"
  selectedSubtitleLanguages :: "string list"
  selectedSpokenLanguages :: "string list"
  selectedSpecials :: "string list"
  startTime :: "string option"
  endTime :: "string option"
  filterStartDate :: "string option"
  filterEndDate :: "string option"

text \<open>
  A rejected promise or a thrown exception is a value: \<open>UpstreamUnavailable\<close> is the
  rejection of \<open>client.request\<close>, \<open>RangeError\<close> is what \<open>toISOString\<close> throws on an
  invalid date, \<open>Failed msg\<close> is \<open>throw new Error(msg)\<close>.
\<close>

datatype error = UpstreamUnavailable | RangeError | Failed string

section \<open>movieService: converting a film group to a Movie\<close>

text \<open>\<open>a?.url || b?.url || ''\<close> on nullable assets.\<close>

definition assetUrl :: "CinevilleAsset option \<Rightarrow> string" where
  "assetUrl a = (case a of None \<Rightarrow> [] | Some x \<Rightarrow> url x)"

definition posterPathOf :: "CinevilleFilm \<Rightarrow> string" where
  "posterPathOf f =
     (if assetUrl (poster f) \<noteq> [] then assetUrl (poster f)
      else if assetUrl (cover f) \<noteq> [] then assetUrl (cover f)
      else [])"

definition toMovieShowtime :: "CinevilleShowtime \<Rightarrow> MovieShowtime" where
  "toMovieShowtime s =
     \<lparr> st_id = showtime_id s,
       st_startDate = startDate s,
       st_endDate = endDate s,
       st_theaterId = theater_id (theater s),
       st_theaterName = theater_name (theater s),
       st_theaterCity = city (address (theater s)),
       st_ticketingUrl = ticketingUrl s,
       st_specials = specials s,
       st_subtitles = subtitles s,
       st_languageVersion = languageVersion s \<rparr>"

definition orEmpty :: "string option \<Rightarrow> string" where
  "orEmpty x = (case x of None \<Rightarrow> [] | Some s \<Rightarrow> s)"

definition convertCinevilleFilmToMovie :: "CinevilleFilm \<Rightarrow> CinevilleShowtime list \<Rightarrow> Movie" where
  "convertCinevilleFilmToMovie f sts =
     \<lparr> movie_id = film_id f,
       title = film_title f,
       poster_path = posterPathOf f,
       release_date =
         (case premiereDate f of
            Some d \<Rightarrow> if d \<noteq> [] then d else numberToString (film_releaseYear f) @ ''-01-01''
          | None \<Rightarrow> numberToString (film_releaseYear f) @ ''-01-01''),
       overview =
         (if shortDescription f \<noteq> [] then shortDescription f
          else if description f \<noteq> [] then description f
          else ''No description available.''),
       vote_average = 0,
       genre_ids = [],
       duration = film_duration f,
       directors = (case film_directors f of None \<Rightarrow> [] | Some ds \<Rightarrow> ds),
       cast = (case film_cast f of None \<Rightarrow> [] | Some cs \<Rightarrow> cs),
       releaseYear = film_releaseYear f,
       spokenLanguages =
         List.map_filter (\<lambda>l. case l of None \<Rightarrow> None | Some s \<Rightarrow> if trim s \<noteq> [] then Some s else None)
           (case film_spokenLanguages f of None \<Rightarrow> [] | Some ls \<Rightarrow> ls),
       availableSubtitles =
         arrayFromSet (map trim (filter (\<lambda>x. trim x \<noteq> []) (map subtitles sts))),
       availableLanguageVersions =
         arrayFromSet (map (\<lambda>s. trim (orEmpty (languageVersion s)))
           (filter (\<lambda>s. orEmpty (languageVersion s) \<noteq> [] \<and> trim (orEmpty (languageVersion s)) \<noteq> []) sts)),
       availableSpecials =
         arrayFromSet (map trim (filter (\<lambda>x. trim x \<noteq> []) (map (\<lambda>s. orEmpty (specials s)) sts))),
       showtimes = map toMovieShowtime sts \<rparr>"

section \<open>movieService.getPopularMovies: grouping and filtering\<close>

text \<open>
  \<open>filmShowtimes\<close> is a JavaScript \<open>Map\<close>, kept as an association list in insertion
  order. \<open>filters\<close> is optional (\<open>filters?\<close>).
\<close>

type_synonym filmShowtimes = "(string \<times> (CinevilleFilm \<times> CinevilleShowtime list)) list"

definition hasMatchingSpecial :: "MovieFilters \<Rightarrow> CinevilleShowtime \<Rightarrow> bool" where
  "hasMatchingSpecial f s =
     (let showtimeSpecials = (case specials s of None \<Rightarrow> [] | Some l \<Rightarrow> toLowerCase l)
      in list_ex (\<lambda>selectedSpecial. str_includes showtimeSpecials (toLowerCase selectedSpecial))
           (selectedSpecials f))"

definition skipShowtime :: "MovieFilters option \<Rightarrow> CinevilleShowtime \<Rightarrow> bool" where
  "skipShowtime fo s =
     (case fo of None \<Rightarrow> False
      | Some f \<Rightarrow> length (selectedSpecials f) > 0 \<and> \<not> hasMatchingSpecial f s)"

definition groupStep :: "MovieFilters option \<Rightarrow> CinevilleShowtime \<Rightarrow> filmShowtimes \<Rightarrow> filmShowtimes" where
  "groupStep fo s m =
     (if skipShowtime fo s then m
      else
        let k = film_id (film s);
            m1 = (if map_of m k = None then m @ [(k, (film s, []))] else m)
        in AList.map_entry k (\<lambda>(f, sts). (f, sts @ [s])) m1)"

definition groupShowtimes :: "MovieFilters option \<Rightarrow> CinevilleShowtime list \<Rightarrow> filmShowtimes" where
  "groupShowtimes fo data = fold (groupStep fo) data []"

definition moviesWithPosters :: "MovieFilters option \<Rightarrow> CinevilleShowtime list \<Rightarrow> Movie list" where
  "moviesWithPosters fo data =
     filter (\<lambda>movie. poster_path movie \<noteq> [])
       (map (\<lambda>(f, sts). convertCinevilleFilmToMovie f sts) (map snd (groupShowtimes fo data)))"

definition subtitleFilter :: "MovieFilters option \<Rightarrow> Movie list \<Rightarrow> Movie list" where
  "subtitleFilter fo movies =
     (case fo of None \<Rightarrow> movies
      | Some f \<Rightarrow>
          if selectedSubtitleLanguages f = [] then movies
          else filter (\<lambda>movie.
                 list_ex (\<lambda>selectedLang.
                   list_ex (\<lambda>availableSubtitle.
                     str_includes (toLowerCase availableSubtitle) (toLowerCase selectedLang))
                     (availableSubtitles movie))
                   (selectedSubtitleLanguages f)) movies)"

definition spokenFilter :: "MovieFilters option \<Rightarrow> Movie list \<Rightarrow> Movie list" where
  "spokenFilter fo movies =
     (case fo of None \<Rightarrow> movies
      | Some f \<Rightarrow>
          if selectedSpokenLanguages f = [] then movies
          else filter (\<lambda>movie.
                 list_ex (\<lambda>selectedLang.
                   list_ex (\<lambda>lang. str_includes (toLowerCase lang) (toLowerCase selectedLang))
                     (spokenLanguages movie))
                   (selectedSpokenLanguages f)) movies)"

text \<open>
  \<open>getPopularMovies\<close> as a function of the filters and of the outcome of the showtimes
  request: a rejection (of the request, or of building its filters), or the list
  \<open>response.showtimes.data\<close>. Any failure inside the \<open>try\<close> block is rethrown as
  \<open>Error('Failed to fetch movies')\<close>. Building the query (\<open>buildApiFilters\<close>, below)
  decides only which request is sent.
\<close>

definition getPopularMovies ::
  "MovieFilters option \<Rightarrow> error + CinevilleShowtime list \<Rightarrow> error + MovieResponse" where
  "getPopularMovies fo response =
     (case response of
        Inl e \<Rightarrow> Inl (Failed ''Failed to fetch movies'')
      | Inr data \<Rightarrow>
          let movies = spokenFilter fo (subtitleFilter fo (moviesWithPosters fo data))
          in Inr \<lparr> page = 1, results = movies, total_pages = 1, total_results = length movies \<rparr>)"

section \<open>movieService: the date range of a query\<close>

text \<open>
  \<open>getDateRange\<close> works on \<open>Date\<close> objects. A date is its time value (\<open>NaN\<close> for an
  invalid date). The engine's part is a parameter: the clock (\<open>new Date()\<close>), parsing
  (\<open>new Date(s)\<close>), \<open>Number\<close> on a string, \<open>setHours\<close> in the local zone on a valid
  date with finite arguments, and the rendering of a valid date by \<open>toISOString\<close>.
  \<open>setHours\<close> keeps an invalid date invalid and makes a date invalid when an argument is
  \<open>NaN\<close> (\<open>undefined\<close> counts as \<open>NaN\<close>); \<open>toISOString\<close> throws \<open>RangeError\<close> on an
  invalid date.
\<close>

record DateEnv =
  env_now :: int
  env_parse :: "string \<Rightarrow> jsnum"
  env_Number :: "string \<Rightarrow> jsnum"
  env_setHours :: "int \<Rightarrow> int \<Rightarrow> int \<Rightarrow> int \<Rightarrow> int \<Rightarrow> jsnum"
  env_toISOString :: "int \<Rightarrow> string"

record DateRange =
  gte :: string
  lt :: string

text \<open>\<open>s.split(':')\<close>: always at least one part.\<close>

fun splitColon :: "string \<Rightarrow> string list" where
  "splitColon [] = [[]]"
| "splitColon (c # cs) =
     (if c = CHR '':'' then [] # splitColon cs
      else (case splitColon cs of [] \<Rightarrow> [[c]] | w # ws \<Rightarrow> (c # w) # ws))"

definition setHours :: "DateEnv \<Rightarrow> jsnum \<Rightarrow> jsnum \<Rightarrow> jsnum \<Rightarrow> int \<Rightarrow> int \<Rightarrow> jsnum" where
  "setHours env d hours minutes seconds ms =
     (case d of
        NaN \<Rightarrow> NaN
      | Num t \<Rightarrow>
          (case hours of
             NaN \<Rightarrow> NaN
           | Num h \<Rightarrow>
               (case minutes of
                  NaN \<Rightarrow> NaN
                | Num m \<Rightarrow> env_setHours env t h m seconds ms)))"

definition toISOString :: "DateEnv \<Rightarrow> jsnum \<Rightarrow> error + string" where
  "toISOString env d = (case d of NaN \<Rightarrow> Inl RangeError | Num t \<Rightarrow> Inr (env_toISOString env t))"

text \<open>\<open>const [hours, minutes] = time.split(':').map(Number)\<close>; a missing part is \<open>undefined\<close>.\<close>

definition hoursMinutes :: "DateEnv \<Rightarrow> string \<Rightarrow> jsnum \<times> jsnum" where
  "hoursMinutes env time =
     (case map (env_Number env) (splitColon time) of
        [] \<Rightarrow> (NaN, NaN)
      | [h] \<Rightarrow> (h, NaN)
      | h # m # rest \<Rightarrow> (h, m))"

definition truthyString :: "string option \<Rightarrow> string option" where
  "truthyString x = (case x of None \<Rightarrow> None | Some s \<Rightarrow> if s \<noteq> [] then Some s else None)"

definition getDateRange :: "DateEnv \<Rightarrow> MovieFilters option \<Rightarrow> error + DateRange" where
  "getDateRange env fo =
     (let now = Num (env_now env);
          startDate =
            (case truthyString (case fo of None \<Rightarrow> None | Some f \<Rightarrow> filterStartDate f) of
               Some d \<Rightarrow>
                 (case truthyString (case fo of None \<Rightarrow> None | Some f \<Rightarrow> startTime f) of
                    Some t \<Rightarrow>
                      setHours env (env_parse env d)
                        (fst (hoursMinutes env t)) (snd (hoursMinutes env t)) 0 0
                  | None \<Rightarrow> setHours env (env_parse env d) (Num 0) (Num 0) 0 0)
             | None \<Rightarrow> now);
          endDate =
            (case truthyString (case fo of None \<Rightarrow> None | Some f \<Rightarrow> filterEndDate f) of
               Some d \<Rightarrow>
                 (case truthyString (case fo of None \<Rightarrow> None | Some f \<Rightarrow> endTime f) of
                    Some t \<Rightarrow>
                      setHours env (env_parse env d)
                        (fst (hoursMinutes env t)) (snd (hoursMinutes env t)) 59 999
                  | None \<Rightarrow> setHours env (env_parse env d) (Num 23) (Num 59) 59 999)
             | None \<Rightarrow> setHours env now (Num 23) (Num 59) 59 999)
      in case toISOString env startDate of
           Inl e \<Rightarrow> Inl e
         | Inr g \<Rightarrow>
             (case toISOString env endDate of
                Inl e \<Rightarrow> Inl e
              | Inr l \<Rightarrow> Inr \<lparr> gte = g, lt = l \<rparr>))"

section \<open>movieService: the venue directory and its caches\<close>

text \<open>
  The three module-level caches are threaded as a state. Each operation takes the outcome
  \<open>request\<close> that \<open>client.request(THEATERS_QUERY)\<close> has if this call issues it (a
  rejection, or \<open>response.theaters.data\<close>), and returns its own outcome with the new
  caches. An array is truthy even when empty, so a cached empty list counts as cached.
\<close>

record Cache =
  allTheaterIdsCache :: "string list option"
  theatersCache :: "CinevilleTheater list option"
  cityTheaterIdsCache :: "(string \<times> string list) list"

definition emptyCache :: Cache where
  "emptyCache = \<lparr> allTheaterIdsCache = None, theatersCache = None, cityTheaterIdsCache = [] \<rparr>"

definition loadTheaters ::
  "error + CinevilleTheater list \<Rightarrow> Cache \<Rightarrow> (error + CinevilleTheater list) \<times> Cache" where
  "loadTheaters request c =
     (case theatersCache c of
        Some ts \<Rightarrow> (Inr ts, c)
      | None \<Rightarrow>
          (case request of
             Inr d \<Rightarrow> (Inr d, c\<lparr> theatersCache := Some d \<rparr>)
           | Inl e \<Rightarrow> (Inr [], c)))"

definition getAllTheaterIds ::
  "error + CinevilleTheater list \<Rightarrow> Cache \<Rightarrow> (error + string list) \<times> Cache" where
  "getAllTheaterIds request c =
     (case allTheaterIdsCache c of
        Some ids \<Rightarrow> (Inr ids, c)
      | None \<Rightarrow>
          (case loadTheaters request c of
             (Inl e, c') \<Rightarrow> (Inl e, c')
           | (Inr theaters, c') \<Rightarrow>
               (Inr (map theater_id theaters),
                c'\<lparr> allTheaterIdsCache := Some (map theater_id theaters) \<rparr>)))"

definition getTheaterIdsByCity ::
  "string \<Rightarrow> error + CinevilleTheater list \<Rightarrow> Cache \<Rightarrow> (error + string list) \<times> Cache" where
  "getTheaterIdsByCity cityName request c =
     (case map_of (cityTheaterIdsCache c) cityName of
        Some ids \<Rightarrow> (Inr ids, c)
      | None \<Rightarrow>
          (case loadTheaters request c of
             (Inl e, c') \<Rightarrow> (Inl e, c')
           | (Inr theaters, c') \<Rightarrow>
               (let theaterIds =
                      map theater_id (filter (\<lambda>t. city (address t) = cityName) theaters)
                in (Inr theaterIds,
                    c'\<lparr> cityTheaterIdsCache := cityTheaterIdsCache c' @ [(cityName, theaterIds)] \<rparr>))))"

definition resolveVenueIds ::
  "MovieFilters option \<Rightarrow> error + CinevilleTheater list \<Rightarrow> Cache \<Rightarrow> (error + string list) \<times> Cache" where
  "resolveVenueIds fo request c =
     (case fo of
        None \<Rightarrow> getAllTheaterIds request c
      | Some f \<Rightarrow>
          if length (selectedTheaters f) \<noteq> 0 then (Inr (selectedTheaters f), c)
          else (case selectedCity f of
                  Some cityName \<Rightarrow>
                    if cityName \<noteq> [] then getTheaterIdsByCity cityName request c
                    else getAllTheaterIds request c
                | None \<Rightarrow> getAllTheaterIds request c))"

text \<open>
  \<open>buildApiFilters\<close> computes the date range first, so a \<open>RangeError\<close> of
  \<open>getDateRange\<close> leaves the caches as they are; an absent key of \<open>apiFilters\<close> is
  \<open>None\<close>.
\<close>

record ApiFilters =
  api_startDate :: DateRange
  api_venue_collections :: "string list"
  api_venueId :: "string list option"
  api_subtitles :: "string list option"

definition buildApiFilters ::
  "DateEnv \<Rightarrow> MovieFilters option \<Rightarrow> bool \<Rightarrow> error + CinevilleTheater list \<Rightarrow> Cache
     \<Rightarrow> (error + ApiFilters \<times> DateRange) \<times> Cache" where
  "buildApiFilters env fo includeSubtitleFilter request c =
     (case getDateRange env fo of
        Inl e \<Rightarrow> (Inl e, c)
      | Inr dateRange \<Rightarrow>
          (case resolveVenueIds fo request c of
             (Inl e, c') \<Rightarrow> (Inl e, c')
           | (Inr venueIds, c') \<Rightarrow>
               (Inr (\<lparr> api_startDate = dateRange,
                        api_venue_collections = [],
                        api_venueId = (if length venueIds > 0 then Some venueIds else None),
                        api_subtitles =
                          (case fo of
                             None \<Rightarrow> None
                           | Some f \<Rightarrow>
                               if includeSubtitleFilter \<and>
                                  length (selectedSubtitleLanguages f) \<noteq> 0
                               then Some (selectedSubtitleLanguages f) else None) \<rparr>,
                     dateRange), c')))"

section \<open>MovieTimeline: buffer, anchor and availability\<close>

text \<open>
  \<open>bufferMinutes\<close> is a finite number, modelled as an integer. The input handler
  stores \<open>Number(e.target.value) || 0\<close>; the stored preference is read with
  \<open>Number.isFinite(value) ? value : 15\<close>. The \<open>min\<close>, \<open>max\<close> and \<open>step\<close> attributes of
  the input element do not change the value the handler receives.
\<close>

definition bufferMinutesFromInput :: "jsnum \<Rightarrow> int" where
  "bufferMinutesFromInput v = (case v of NaN \<Rightarrow> 0 | Num n \<Rightarrow> n)"

definition bufferMinutesFromStorage :: "jsnum \<Rightarrow> int" where
  "bufferMinutesFromStorage v = (case v of NaN \<Rightarrow> 15 | Num n \<Rightarrow> n)"

definition bufferTimeMs :: "int \<Rightarrow> int" where
  "bufferTimeMs bufferMinutes = max 0 bufferMinutes * 60 * 1000"

text \<open>
  \<open>new Date(s).getTime()\<close>: parsing is the engine's, passed as \<open>parse\<close>; the empty
  string is an invalid date.
\<close>

definition getTime :: "(string \<Rightarrow> jsnum) \<Rightarrow> string \<Rightarrow> jsnum" where
  "getTime parse s = (if s = [] then NaN else parse s)"

record Anchor =
  anchor_movieId :: string
  anchor_showtimeId :: string

definition selectedAnchorEnd ::
  "(string \<Rightarrow> jsnum) \<Rightarrow> Movie list \<Rightarrow> Anchor option \<Rightarrow> jsnum option" where
  "selectedAnchorEnd parse movies selectedAnchor =
     (case selectedAnchor of
        None \<Rightarrow> None
      | Some a \<Rightarrow>
          (case find (\<lambda>m. movie_id m = anchor_movieId a) movies of
             None \<Rightarrow> None
           | Some movie \<Rightarrow>
               (case find (\<lambda>st. st_id st = anchor_showtimeId a) (showtimes movie) of
                  None \<Rightarrow> None
                | Some showtime \<Rightarrow> Some (getTime parse (st_endDate showtime)))))"

definition handleShowtimeClick :: "Movie \<Rightarrow> string \<Rightarrow> Anchor option \<Rightarrow> Anchor option" where
  "handleShowtimeClick movie showtimeId prev =
     (case prev of
        Some a \<Rightarrow>
          if anchor_movieId a = movie_id movie \<and> anchor_showtimeId a = showtimeId then None
          else Some \<lparr> anchor_movieId = movie_id movie, anchor_showtimeId = showtimeId \<rparr>
      | None \<Rightarrow> Some \<lparr> anchor_movieId = movie_id movie, anchor_showtimeId = showtimeId \<rparr>)"

text \<open>The per-row flags computed in the body of \<open>timelineData.map\<close>.\<close>

record RowFlags =
  isAnchorShowtime :: bool
  isAvailableAfterSelected :: bool
  isBlockedBySelection :: bool
  hideSameMovieRow :: bool
  shouldHideRow :: bool

definition rowFlags ::
  "(string \<Rightarrow> jsnum) \<Rightarrow> Movie list \<Rightarrow> Anchor option \<Rightarrow> int \<Rightarrow> bool \<Rightarrow> bool \<Rightarrow> Movie \<Rightarrow> string
     \<Rightarrow> RowFlags" where
  "rowFlags parse movies selectedAnchor bufferMinutes hideSameMovie modeIsHide movie showtimeId =
     (let isAnchor =
            (case selectedAnchor of
               None \<Rightarrow> False
             | Some a \<Rightarrow> anchor_movieId a = movie_id movie \<and> anchor_showtimeId a = showtimeId);
          anchorEnd = selectedAnchorEnd parse movies selectedAnchor;
          currentShowtimeStart =
            getTime parse
              (case find (\<lambda>st. st_id st = showtimeId) (showtimes movie) of
                 None \<Rightarrow> []
               | Some st \<Rightarrow> st_startDate st);
          entered = (case anchorEnd of None \<Rightarrow> False | Some e \<Rightarrow> truthy e);
          available =
            (case anchorEnd of
               None \<Rightarrow> False
             | Some e \<Rightarrow>
                 entered \<and> js_ge currentShowtimeStart (js_plus e (bufferTimeMs bufferMinutes)));
          blocked = (entered \<and> \<not> isAnchor \<and> \<not> available);
          hideSame =
            (case selectedAnchor of
               None \<Rightarrow> False
             | Some a \<Rightarrow> hideSameMovie \<and> movie_id movie = anchor_movieId a \<and> \<not> isAnchor)
      in \<lparr> isAnchorShowtime = isAnchor,
           isAvailableAfterSelected = available,
           isBlockedBySelection = blocked,
           hideSameMovieRow = hideSame,
           shouldHideRow = ((modeIsHide \<and> anchorEnd \<noteq> None \<and> blocked) \<or> hideSame) \<rparr>)"

section \<open>MovieTimeline: theater column order\<close>

text \<open>\<open>theaters\<close> are the \<open>{id, name}\<close> columns of the current result, sorted by name.\<close>

record TheaterCol =
  col_id :: string
  col_name :: string

definition orderedTheaters :: "string list \<Rightarrow> TheaterCol list \<Rightarrow> TheaterCol list" where
  "orderedTheaters theaterOrder theaters =
     (let storedIds = filter (\<lambda>i. list_ex (\<lambda>t. col_id t = i) theaters) theaterOrder;
          remaining = map col_id (filter (\<lambda>t. col_id t \<notin> set storedIds) theaters);
          finalIds = storedIds @ remaining
      in List.map_filter (\<lambda>i. find (\<lambda>t. col_id t = i) theaters) finalIds)"

text \<open>The updater passed to \<open>setTheaterOrder\<close> and the effect that applies it.\<close>

definition mergeTheaterOrder :: "TheaterCol list \<Rightarrow> string list \<Rightarrow> string list" where
  "mergeTheaterOrder theaters prev =
     (let currentIds = map col_id theaters
      in if length prev = 0 then currentIds
         else
           let valid = filter (\<lambda>i. i \<in> set currentIds) prev;
               missing = filter (\<lambda>i. i \<notin> set valid) currentIds;
               next = valid @ missing
           in if length next = length prev \<and>
                 list_all (\<lambda>idx. next ! idx = prev ! idx) [0 ..< length next]
              then prev else next)"

definition mergeNewTheaters :: "bool \<Rightarrow> TheaterCol list \<Rightarrow> string list \<Rightarrow> string list" where
  "mergeNewTheaters prefsHydrated theaters theaterOrder =
     (if \<not> prefsHydrated then theaterOrder
      else if length theaters = 0 then theaterOrder
      else mergeTheaterOrder theaters theaterOrder)"

section \<open>Example records\<close>

definition exAsset :: "string \<Rightarrow> CinevilleAsset" where
  "exAsset u = \<lparr> url = u, mime = None, alternativeText = None \<rparr>"

definition exFilm :: "string \<Rightarrow> CinevilleAsset option \<Rightarrow> CinevilleAsset option \<Rightarrow> CinevilleFilm" where
  "exFilm i p c =
     \<lparr> film_id = i, film_title = i, cover = c, poster = p, film_cast = None, film_duration = 90,
       film_directors = None, film_releaseYear = 2024,
       film_spokenLanguages = Some [Some ''English''],
       premiereDate = None, shortDescription = [], description = [] \<rparr>"

definition exTheater :: "string \<Rightarrow> string \<Rightarrow> string \<Rightarrow> CinevilleTheater" where
  "exTheater i n c =
     \<lparr> theater_id = i, theater_name = n, address = \<lparr> city = c, country = ''NL'' \<rparr> \<rparr>"

definition exShowtime ::
  "string \<Rightarrow> CinevilleFilm \<Rightarrow> CinevilleTheater \<Rightarrow> string \<Rightarrow> string \<Rightarrow> string option
     \<Rightarrow> CinevilleShowtime" where
  "exShowtime i f t s e sp =
     \<lparr> showtime_id = i, film = f, theater = t, startDate = s, endDate = e, subtitles = ''en'',
       languageVersion = None, ticketingUrl = None, specials = sp \<rparr>"

definition exFilters :: "string option \<Rightarrow> string list \<Rightarrow> string list \<Rightarrow> MovieFilters" where
  "exFilters c ths sps =
     \<lparr> selectedCity = c, selectedTheaters = ths, selectedSubtitleLanguages = [],
       selectedSpokenLanguages = [], selectedSpecials = sps, startTime = None, endTime = None,
       filterStartDate = None, filterEndDate = None \<rparr>"

text \<open>
  Two screenings of F1 (with a poster) at two venues and one screening of F2, which has
  neither a poster nor a cover.
\<close>

definition exData :: "CinevilleShowtime list" where
  "exData =
     [exShowtime ''s1'' (exFilm ''F1'' (Some (exAsset ''p1.jpg'')) None)
        (exTheater ''A'' ''Kriterion'' ''Amsterdam'') ''2024-05-01T15:00'' ''2024-05-01T17:00'' None,
      exShowtime ''s2'' (exFilm ''F2'' None None)
        (exTheater ''A'' ''Kriterion'' ''Amsterdam'') ''2024-05-01T17:00'' ''2024-05-01T19:00'' None,
      exShowtime ''s3'' (exFilm ''F1'' (Some (exAsset ''p1.jpg'')) None)
        (exTheater ''B'' ''Rialto'' ''Amsterdam'') ''2024-05-01T18:00'' ''2024-05-01T20:00'' None]"

definition ex3D :: "CinevilleShowtime list" where
  "ex3D =
     [exShowtime ''a1'' (exFilm ''F1'' (Some (exAsset ''p1.jpg'')) None)
        (exTheater ''A'' ''Kriterion'' ''Amsterdam'') ''2024-05-01T15:00'' ''2024-05-01T17:00''
        (Some ''Open Air 3D Screening''),
      exShowtime ''a2'' (exFilm ''F3'' (Some (exAsset ''p3.jpg'')) None)
        (exTheater ''A'' ''Kriterion'' ''Amsterdam'') ''2024-05-01T17:00'' ''2024-05-01T19:00''
        (Some ''Subtitled'')]"

text \<open>F3 has no poster but a cover; F2 has neither.\<close>

definition exCover :: "CinevilleShowtime list" where
  "exCover =
     [exShowtime ''c1'' (exFilm ''F3'' None (Some (exAsset ''c3.jpg'')))
        (exTheater ''A'' ''Kriterion'' ''Amsterdam'') ''2024-05-01T15:00'' ''2024-05-01T17:00'' None,
      exShowtime ''c2'' (exFilm ''F2'' None None)
        (exTheater ''A'' ''Kriterion'' ''Amsterdam'') ''2024-05-01T17:00'' ''2024-05-01T19:00'' None]"

definition exDirectory :: "CinevilleTheater list" where
  "exDirectory =
     [exTheater ''A'' ''Kriterion'' ''Amsterdam'',
      exTheater ''B'' ''Rialto'' ''Amsterdam'',
      exTheater ''R'' ''Kino'' ''Rotterdam'']"

definition exCols :: "TheaterCol list" where
  "exCols = [\<lparr> col_id = ''A'', col_name = ''Kriterion'' \<rparr>,
             \<lparr> col_id = ''B'', col_name = ''Rialto'' \<rparr>,
             \<lparr> col_id = ''C'', col_name = ''Studio K'' \<rparr>]"

text \<open>A date parser defined on the four instants the epoch example uses.\<close>

definition exParse :: "string \<Rightarrow> jsnum" where
  "exParse s =
     (if s = ''1969-12-31T22:00:00.000Z'' then Num (- 7200000)
      else if s = ''1970-01-01T00:00:00.000Z'' then Num 0
      else if s = ''1970-01-01T02:00:00.000Z'' then Num 7200000
      else if s = ''1970-01-01T04:00:00.000Z'' then Num 14400000
      else NaN)"

definition exEpochMovie :: Movie where
  "exEpochMovie =
     convertCinevilleFilmToMovie (exFilm ''F1'' (Some (exAsset ''p1.jpg'')) None)
       [exShowtime ''anchor'' (exFilm ''F1'' (Some (exAsset ''p1.jpg'')) None)
          (exTheater ''A'' ''Kriterion'' ''Amsterdam'')
          ''1969-12-31T22:00:00.000Z'' ''1970-01-01T00:00:00.000Z'' None,
        exShowtime ''later'' (exFilm ''F1'' (Some (exAsset ''p1.jpg'')) None)
          (exTheater ''B'' ''Rialto'' ''Amsterdam'')
          ''1970-01-01T02:00:00.000Z'' ''1970-01-01T04:00:00.000Z'' None]"

text \<open>
  An engine for the examples: the clock reads 2024-05-01T10:00:00Z, the local zone is
  UTC, \<open>Number\<close> knows no string, and \<open>toISOString\<close> is given on the two instants
  the example needs.
\<close>

definition exISO :: "int \<Rightarrow> string" where
  "exISO t =
     (if t = 1714557600000 then ''2024-05-01T10:00:00.000Z''
      else if t = 1714607999999 then ''2024-05-01T23:59:59.999Z''
      else ''other'')"

definition exEnv :: DateEnv where
  "exEnv =
     \<lparr> env_now = 1714557600000,
       env_parse = exParse,
       env_Number = (\<lambda>s. NaN),
       env_setHours =
         (\<lambda>t h m sec ms. Num (t - t mod 86400000 + h * 3600000 + m * 60000 + sec * 1000 + ms)),
       env_toISOString = exISO \<rparr>"

definition exAnchor :: Anchor where
  "exAnchor = \<lparr> anchor_movieId = ''F1'', anchor_showtimeId = ''anchor'' \<rparr>"

section \<open>Notions used to state the properties\<close>

text \<open>
  \<open>kept\<close> are the showtimes the grouping loop does not skip, \<open>ofFilm k\<close> those of film
  id \<open>k\<close>. \<open>groupSpec\<close> is what the map holds under \<open>k\<close>: the film payload of the first
  kept showtime of \<open>k\<close> with all kept showtimes of \<open>k\<close> in input order, and no entry when
  none is kept.
\<close>

definition kept :: "MovieFilters option \<Rightarrow> CinevilleShowtime list \<Rightarrow> CinevilleShowtime list" where
  "kept fo xs = filter (\<lambda>s. \<not> skipShowtime fo s) xs"

definition ofFilm :: "string \<Rightarrow> CinevilleShowtime list \<Rightarrow> CinevilleShowtime list" where
  "ofFilm k xs = filter (\<lambda>s. film_id (film s) = k) xs"

definition groupSpec ::
  "CinevilleShowtime list \<Rightarrow> string \<Rightarrow> (CinevilleFilm \<times> CinevilleShowtime list) option" where
  "groupSpec xs k =
     (if ofFilm k xs = [] then None else Some (film (hd (ofFilm k xs)), ofFilm k xs))"

text \<open>All records that share a film id carry the same film payload.\<close>

definition samePayload :: "CinevilleShowtime list \<Rightarrow> bool" where
  "samePayload xs =
     (\<forall>s \<in> set xs. \<forall>t \<in> set xs. film_id (film s) = film_id (film t) \<longrightarrow> film s = film t)"

text \<open>
  A movie up to the order of its lists: the film-derived fields as they are, and the
  showtimes and the three facets as sets.
\<close>

definition movieView ::
  "Movie \<Rightarrow> Movie \<times> MovieShowtime set \<times> string set \<times> string set \<times> string set" where
  "movieView m =
     (m\<lparr> availableSubtitles := [], availableLanguageVersions := [], availableSpecials := [],
         showtimes := [] \<rparr>,
      set (showtimes m), set (availableSubtitles m), set (availableLanguageVersions m),
      set (availableSpecials m))"

definition passesSubtitle :: "MovieFilters option \<Rightarrow> Movie \<Rightarrow> bool" where
  "passesSubtitle fo m =
     (case fo of None \<Rightarrow> True
      | Some f \<Rightarrow> selectedSubtitleLanguages f = [] \<or>
          (\<exists>l \<in> set (selectedSubtitleLanguages f). \<exists>a \<in> set (availableSubtitles m).
             str_includes (toLowerCase a) (toLowerCase l)))"

definition passesSpoken :: "MovieFilters option \<Rightarrow> Movie \<Rightarrow> bool" where
  "passesSpoken fo m =
     (case fo of None \<Rightarrow> True
      | Some f \<Rightarrow> selectedSpokenLanguages f = [] \<or>
          (\<exists>l \<in> set (selectedSpokenLanguages f). \<exists>a \<in> set (spokenLanguages m).
             str_includes (toLowerCase a) (toLowerCase l)))"






section \<open>What the grouping loop computes\<close>

lemma groupShowtimes_snoc:
  "groupShowtimes fo (xs @ [s]) = groupStep fo s (groupShowtimes fo xs)"
  by (simp add: groupShowtimes_def)

lemma kept_snoc:
  "kept fo (xs @ [s]) = (if skipShowtime fo s then kept fo xs else kept fo xs @ [s])"
  by (simp add: kept_def)

lemma groupSpec_snoc:
  "groupSpec (xs @ [s]) k =
     (if film_id (film s) = k
      then (case groupSpec xs k of None \<Rightarrow> Some (film s, [s]) | Some (f, sts) \<Rightarrow> Some (f, sts @ [s]))
      else groupSpec xs k)"
  by (auto simp: groupSpec_def ofFilm_def)

lemma groupStep_distinct:
  "distinct (map fst m) \<Longrightarrow> distinct (map fst (groupStep fo s m))"
  by (auto simp: groupStep_def Let_def intro!: distinct_map_entry dest: weak_map_of_SomeI
      simp: map_of_eq_None_iff)

lemma groupStep_map_of:
  "\<not> skipShowtime fo s \<Longrightarrow>
   map_of (groupStep fo s m) k =
     (if film_id (film s) = k
      then (case map_of m k of None \<Rightarrow> Some (film s, [s]) | Some (f, sts) \<Rightarrow> Some (f, sts @ [s]))
      else map_of m k)"
  by (auto simp: groupStep_def Let_def map_of_map_entry split: option.splits)

lemma groupShowtimes_distinct: "distinct (map fst (groupShowtimes fo xs))"
proof (induction xs rule: rev_induct)
  case Nil
  show ?case by (simp add: groupShowtimes_def)
next
  case (snoc s xs)
  then show ?case by (simp add: groupShowtimes_snoc groupStep_distinct)
qed

lemma groupShowtimes_map_of: "map_of (groupShowtimes fo xs) k = groupSpec (kept fo xs) k"
proof (induction xs rule: rev_induct)
  case Nil
  show ?case by (simp add: groupShowtimes_def groupSpec_def kept_def ofFilm_def)
next
  case (snoc s xs)
  show ?case
  proof (cases "skipShowtime fo s")
    case True
    then show ?thesis using snoc by (simp add: groupShowtimes_snoc kept_snoc groupStep_def)
  next
    case False
    then show ?thesis using snoc
      by (simp add: groupShowtimes_snoc kept_snoc groupStep_map_of groupSpec_snoc)
  qed
qed

lemma groups_mem:
  "(k, f, sts) \<in> set (groupShowtimes fo xs) \<longleftrightarrow> groupSpec (kept fo xs) k = Some (f, sts)"
  using groupShowtimes_distinct [of fo xs] groupShowtimes_map_of [of fo xs k]
  by (metis map_of_eq_Some_iff)

lemma groupSpec_SomeD:
  "groupSpec ys k = Some (f, sts) \<Longrightarrow> sts = ofFilm k ys \<and> sts \<noteq> [] \<and> f = film (hd sts)"
  by (auto simp: groupSpec_def split: if_splits)

lemma group_unique:
  "(k, f, sts) \<in> set (groupShowtimes fo xs) \<Longrightarrow> (k, f', sts') \<in> set (groupShowtimes fo xs)
   \<Longrightarrow> f' = f \<and> sts' = sts"
  by (simp add: groups_mem)

lemma group_film_id:
  assumes "(k, f, sts) \<in> set (groupShowtimes fo xs)"
  shows "film_id f = k"
proof -
  from assms have g: "groupSpec (kept fo xs) k = Some (f, sts)" by (simp add: groups_mem)
  from groupSpec_SomeD [OF g] have "sts = ofFilm k (kept fo xs)" "sts \<noteq> []" "f = film (hd sts)"
    by blast+
  moreover then have "hd sts \<in> set (ofFilm k (kept fo xs))" by (metis hd_in_set)
  ultimately show ?thesis by (simp add: ofFilm_def)
qed

lemma group_showtimes_kept:
  assumes "(k, g, sts) \<in> set (groupShowtimes fo xs)"
  shows "sts = filter (\<lambda>t. film_id (film t) = k \<and> \<not> skipShowtime fo t) xs \<and> sts \<noteq> []"
proof -
  from assms have "groupSpec (kept fo xs) k = Some (g, sts)" by (simp add: groups_mem)
  from groupSpec_SomeD [OF this] have "sts = ofFilm k (kept fo xs)" "sts \<noteq> []" by blast+
  then show ?thesis by (simp add: ofFilm_def kept_def conj_commute)
qed

section \<open>From groups to the result list\<close>

lemma poster_path_convert [simp]:
  "poster_path (convertCinevilleFilmToMovie f sts) = posterPathOf f"
  by (simp add: convertCinevilleFilmToMovie_def)

lemma showtimes_convert [simp]:
  "showtimes (convertCinevilleFilmToMovie f sts) = map toMovieShowtime sts"
  by (simp add: convertCinevilleFilmToMovie_def)

lemma movie_id_convert [simp]:
  "movie_id (convertCinevilleFilmToMovie f sts) = film_id f"
  by (simp add: convertCinevilleFilmToMovie_def)

lemma set_moviesWithPosters:
  "set (moviesWithPosters fo xs) =
     {convertCinevilleFilmToMovie f sts | k f sts.
        groupSpec (kept fo xs) k = Some (f, sts) \<and> posterPathOf f \<noteq> []}"
proof -
  have "set (moviesWithPosters fo xs) =
     {convertCinevilleFilmToMovie f sts | k f sts.
        (k, f, sts) \<in> set (groupShowtimes fo xs) \<and> posterPathOf f \<noteq> []}"
    unfolding moviesWithPosters_def by force
  then show ?thesis by (simp add: groups_mem)
qed

lemma group_passes_gate:
  "(k, f, sts) \<in> set (groupShowtimes fo xs) \<Longrightarrow> posterPathOf f \<noteq> [] \<Longrightarrow>
   convertCinevilleFilmToMovie f sts \<in> set (moviesWithPosters fo xs)"
  unfolding set_moviesWithPosters groups_mem by blast

lemma mem_moviesWithPosters:
  "m \<in> set (moviesWithPosters fo xs) \<longleftrightarrow>
     (\<exists>k f sts. (k, f, sts) \<in> set (groupShowtimes fo xs) \<and> posterPathOf f \<noteq> [] \<and>
         m = convertCinevilleFilmToMovie f sts)"
  unfolding set_moviesWithPosters groups_mem by blast

lemma set_subtitleFilter: "set (subtitleFilter fo ms) \<subseteq> set ms"
  by (auto simp: subtitleFilter_def split: option.splits)

lemma set_spokenFilter: "set (spokenFilter fo ms) \<subseteq> set ms"
  by (auto simp: spokenFilter_def split: option.splits)

lemma set_subtitleFilter_eq: "set (subtitleFilter fo ms) = {m \<in> set ms. passesSubtitle fo m}"
  by (auto simp: subtitleFilter_def passesSubtitle_def list_ex_iff split: option.splits)

lemma set_spokenFilter_eq: "set (spokenFilter fo ms) = {m \<in> set ms. passesSpoken fo m}"
  by (auto simp: spokenFilter_def passesSpoken_def list_ex_iff split: option.splits)

lemma results_getPopularMovies:
  "getPopularMovies fo (Inr xs) =
     Inr \<lparr> page = 1, results = spokenFilter fo (subtitleFilter fo (moviesWithPosters fo xs)),
           total_pages = 1,
           total_results = length (spokenFilter fo (subtitleFilter fo (moviesWithPosters fo xs))) \<rparr>"
  by (simp add: getPopularMovies_def Let_def)

lemma set_results:
  "set (spokenFilter fo (subtitleFilter fo (moviesWithPosters fo xs))) =
     {m \<in> set (moviesWithPosters fo xs). passesSubtitle fo m \<and> passesSpoken fo m}"
  by (auto simp: set_spokenFilter_eq set_subtitleFilter_eq)

lemma dropped_film_absent:
  assumes "\<forall>t \<in> set xs. film_id (film t) = k \<longrightarrow> skipShowtime fo t"
    and "getPopularMovies fo (Inr xs) = Inr r"
  shows "k \<notin> movie_id ` set (results r)"
proof
  assume "k \<in> movie_id ` set (results r)"
  then obtain m where m: "m \<in> set (results r)" "movie_id m = k" by auto
  from assms(2) have "results r = spokenFilter fo (subtitleFilter fo (moviesWithPosters fo xs))"
    by (auto simp: results_getPopularMovies)
  with m have "m \<in> set (moviesWithPosters fo xs)" by (simp add: set_results)
  then obtain k' f sts where g: "(k', f, sts) \<in> set (groupShowtimes fo xs)"
    and mc: "m = convertCinevilleFilmToMovie f sts"
    unfolding set_moviesWithPosters groups_mem by blast
  from group_film_id [OF g] m mc have kk: "k' = k" by simp
  from group_showtimes_kept [OF g] have "sts \<noteq> []"
    and "sts = filter (\<lambda>t. film_id (film t) = k' \<and> \<not> skipShowtime fo t) xs" by blast+
  then obtain t where "t \<in> set xs" "film_id (film t) = k'" "\<not> skipShowtime fo t"
    by (metis (mono_tags, lifting) filter_False)
  with assms(1) kk show False by blast
qed

section \<open>The specials predicate\<close>

lemma toLowerCase_Nil_iff [simp]: "toLowerCase s = [] \<longleftrightarrow> s = []"
  by (simp add: toLowerCase_def)

lemma str_includes_Nil_left [simp]: "str_includes [] n \<longleftrightarrow> n = []"
  by (simp add: str_includes_def)

lemma keep_iff:
  "selectedSpecials f \<noteq> [] \<Longrightarrow>
   (\<not> skipShowtime (Some f) s) =
     (\<exists>sel \<in> set (selectedSpecials f).
        str_includes (toLowerCase (orEmpty (specials s))) (toLowerCase sel))"
  by (auto simp: skipShowtime_def hasMatchingSpecial_def list_ex_iff orEmpty_def toLowerCase_def
      split: option.splits)

section \<open>Invariance under reordering of the input\<close>

lemma set_fold_setAdd: "set (fold setAdd xs acc) = set xs \<union> set acc"
  by (induction xs arbitrary: acc) (auto simp: setAdd_def)

lemma set_arrayFromSet [simp]: "set (arrayFromSet xs) = set xs"
  by (simp add: arrayFromSet_def set_fold_setAdd)

lemma movieView_convert:
  "set sts = set sts' \<Longrightarrow>
   movieView (convertCinevilleFilmToMovie f sts) = movieView (convertCinevilleFilmToMovie f sts')"
  by (simp add: movieView_def convertCinevilleFilmToMovie_def)

lemma movieView_passes:
  assumes "movieView m = movieView m'"
  shows "passesSubtitle fo m = passesSubtitle fo m'" and "passesSpoken fo m = passesSpoken fo m'"
proof -
  from assms have a: "set (availableSubtitles m) = set (availableSubtitles m')"
    by (simp add: movieView_def)
  from assms have "spokenLanguages (fst (movieView m)) = spokenLanguages (fst (movieView m'))"
    by simp
  then have b: "spokenLanguages m = spokenLanguages m'"
    by (simp add: movieView_def)
  show "passesSubtitle fo m = passesSubtitle fo m'"
    by (cases fo) (simp_all add: passesSubtitle_def a)
  show "passesSpoken fo m = passesSpoken fo m'"
    by (cases fo) (simp_all add: passesSpoken_def b)
qed

lemma view_transfer:
  assumes eq: "set xs = set ys" and sp: "samePayload xs"
    and m: "m \<in> set (spokenFilter fo (subtitleFilter fo (moviesWithPosters fo xs)))"
  shows "\<exists>m' \<in> set (spokenFilter fo (subtitleFilter fo (moviesWithPosters fo ys))).
           movieView m' = movieView m"
proof -
  from m have mw: "m \<in> set (moviesWithPosters fo xs)" and ps: "passesSubtitle fo m"
    and pk: "passesSpoken fo m"
    by (simp_all add: set_results)
  from mw obtain k f sts where g: "groupSpec (kept fo xs) k = Some (f, sts)"
    and p: "posterPathOf f \<noteq> []" and mc: "m = convertCinevilleFilmToMovie f sts"
    unfolding set_moviesWithPosters by blast
  from groupSpec_SomeD [OF g] have sts: "sts = ofFilm k (kept fo xs)" and ne: "sts \<noteq> []"
    and f: "f = film (hd sts)" by blast+
  let ?sts' = "ofFilm k (kept fo ys)"
  have seq: "set ?sts' = set sts"
    using eq by (auto simp: sts ofFilm_def kept_def)
  with ne have ne': "?sts' \<noteq> []" by auto
  have h1: "hd sts \<in> set sts" using ne by simp
  have h2: "hd ?sts' \<in> set sts" using ne' seq by (metis hd_in_set)
  have "film (hd ?sts') = film (hd sts)"
  proof -
    from h1 have a: "hd sts \<in> set xs" "film_id (film (hd sts)) = k"
      by (auto simp: sts ofFilm_def kept_def)
    from h2 have b: "hd ?sts' \<in> set xs" "film_id (film (hd ?sts')) = k"
      by (auto simp: sts ofFilm_def kept_def)
    from sp a b show ?thesis unfolding samePayload_def by metis
  qed
  with f have g': "groupSpec (kept fo ys) k = Some (f, ?sts')"
    using ne' by (simp add: groupSpec_def)
  let ?m' = "convertCinevilleFilmToMovie f ?sts'"
  have mw': "?m' \<in> set (moviesWithPosters fo ys)"
    unfolding set_moviesWithPosters using g' p by blast
  have v: "movieView ?m' = movieView m"
    unfolding mc by (rule movieView_convert) (rule seq)
  from movieView_passes [OF v] ps pk have "passesSubtitle fo ?m'" "passesSpoken fo ?m'"
    by simp_all
  with mw' have "?m' \<in> set (spokenFilter fo (subtitleFilter fo (moviesWithPosters fo ys)))"
    by (simp add: set_results)
  with v show ?thesis by blast
qed

lemma samePayload_cong: "set xs = set ys \<Longrightarrow> samePayload xs = samePayload ys"
  by (simp add: samePayload_def)

lemma view_image_sub:
  assumes eq: "set xs = set ys" and sp: "samePayload xs"
  shows "movieView ` set (spokenFilter fo (subtitleFilter fo (moviesWithPosters fo xs))) \<subseteq>
         movieView ` set (spokenFilter fo (subtitleFilter fo (moviesWithPosters fo ys)))"
proof
  fix v assume "v \<in> movieView ` set (spokenFilter fo (subtitleFilter fo (moviesWithPosters fo xs)))"
  then obtain m where m: "m \<in> set (spokenFilter fo (subtitleFilter fo (moviesWithPosters fo xs)))"
    and v: "v = movieView m" by blast
  from view_transfer [OF eq sp m] obtain m'
    where "m' \<in> set (spokenFilter fo (subtitleFilter fo (moviesWithPosters fo ys)))"
      and "movieView m' = movieView m" by blast
  with v show "v \<in> movieView ` set (spokenFilter fo (subtitleFilter fo (moviesWithPosters fo ys)))"
    by (simp add: rev_image_eqI)
qed

lemma view_image_eq:
  assumes eq: "set xs = set ys" and sp: "samePayload xs"
  shows "movieView ` set (spokenFilter fo (subtitleFilter fo (moviesWithPosters fo xs))) =
         movieView ` set (spokenFilter fo (subtitleFilter fo (moviesWithPosters fo ys)))"
proof
  show "movieView ` set (spokenFilter fo (subtitleFilter fo (moviesWithPosters fo xs))) \<subseteq>
         movieView ` set (spokenFilter fo (subtitleFilter fo (moviesWithPosters fo ys)))"
    by (rule view_image_sub [OF eq sp])
  have eq': "set ys = set xs" using eq by simp
  have sp': "samePayload ys" using sp samePayload_cong [OF eq] by simp
  show "movieView ` set (spokenFilter fo (subtitleFilter fo (moviesWithPosters fo ys))) \<subseteq>
         movieView ` set (spokenFilter fo (subtitleFilter fo (moviesWithPosters fo xs)))"
    by (rule view_image_sub [OF eq' sp'])
qed

lemma distinct_movie_ids:
  "distinct (map movie_id (spokenFilter fo (subtitleFilter fo (moviesWithPosters fo xs))))"
proof -
  have "map movie_id (map (\<lambda>(f, sts). convertCinevilleFilmToMovie f sts)
          (map snd (groupShowtimes fo xs))) = map fst (groupShowtimes fo xs)"
    by (auto simp: group_film_id)
  then have d: "distinct (map movie_id (map (\<lambda>(f, sts). convertCinevilleFilmToMovie f sts)
          (map snd (groupShowtimes fo xs))))"
    by (simp only: groupShowtimes_distinct)
  have "distinct (map movie_id (moviesWithPosters fo xs))"
    unfolding moviesWithPosters_def by (rule distinct_map_filter) (rule d)
  then have "distinct (map movie_id (subtitleFilter fo (moviesWithPosters fo xs)))"
    by (auto simp: subtitleFilter_def distinct_map_filter split: option.splits)
  then show ?thesis
    by (auto simp: spokenFilter_def distinct_map_filter split: option.splits)
qed

lemma length_results_eq:
  assumes eq: "set xs = set ys" and sp: "samePayload xs"
  shows "length (spokenFilter fo (subtitleFilter fo (moviesWithPosters fo xs))) =
         length (spokenFilter fo (subtitleFilter fo (moviesWithPosters fo ys)))"
proof -
  let ?a = "spokenFilter fo (subtitleFilter fo (moviesWithPosters fo xs))"
  let ?b = "spokenFilter fo (subtitleFilter fo (moviesWithPosters fo ys))"
  have "movie_id ` set ?a = (movie_id \<circ> fst) ` (movieView ` set ?a)"
    by (simp add: image_image movieView_def)
  also have "\<dots> = (movie_id \<circ> fst) ` (movieView ` set ?b)"
    by (simp only: view_image_eq [OF eq sp])
  also have "\<dots> = movie_id ` set ?b"
    by (simp add: image_image movieView_def)
  finally have "set (map movie_id ?a) = set (map movie_id ?b)" by simp
  then have "card (set (map movie_id ?a)) = card (set (map movie_id ?b))" by simp
  then show ?thesis
    using distinct_movie_ids [of fo xs] distinct_movie_ids [of fo ys]
    by (simp only: distinct_card length_map)
qed

section \<open>The venue directory under a fixed upstream directory\<close>







lemma buildApiFilters_venueId:
  "getDateRange env fo = Inr dr \<Longrightarrow> fst (resolveVenueIds fo request c) = Inr ids \<Longrightarrow>
   \<exists>af c'. buildApiFilters env fo incl request c = (Inr (af, dr), c') \<and>
           api_venueId af = (if ids = [] then None else Some ids)"
  by (auto simp: buildApiFilters_def split: prod.splits sum.splits)

lemma getDateRange_unparsable_start:
  "filterStartDate f = Some d \<Longrightarrow> d \<noteq> [] \<Longrightarrow> env_parse env d = NaN \<Longrightarrow>
   getDateRange env (Some f) = Inl RangeError"
  by (simp add: getDateRange_def truthyString_def setHours_def toISOString_def Let_def
      split: option.splits)

section \<open>The theater column order\<close>

lemma find_col_id:
  "i \<in> col_id ` set theaters \<Longrightarrow>
   \<exists>t. find (\<lambda>t. col_id t = i) theaters = Some t \<and> col_id t = i"
  by (induction theaters) auto

lemma map_filter_find_ids:
  "set ids \<subseteq> col_id ` set theaters \<Longrightarrow>
   map col_id (List.map_filter (\<lambda>i. find (\<lambda>t. col_id t = i) theaters) ids) = ids"
proof (induction ids)
  case Nil
  show ?case by simp
next
  case (Cons i ids)
  then obtain t where "find (\<lambda>t. col_id t = i) theaters = Some t" "col_id t = i"
    using find_col_id [of i theaters] by auto
  with Cons show ?case by simp
qed

lemma orderedTheaters_ids:
  "map col_id (orderedTheaters theaterOrder theaters) =
     filter (\<lambda>i. i \<in> col_id ` set theaters) theaterOrder @
     filter (\<lambda>i. i \<notin> set theaterOrder) (map col_id theaters)"
proof -
  let ?stored = "filter (\<lambda>i. list_ex (\<lambda>t. col_id t = i) theaters) theaterOrder"
  let ?remaining = "map col_id (filter (\<lambda>t. col_id t \<notin> set ?stored) theaters)"
  have s: "?stored = filter (\<lambda>i. i \<in> col_id ` set theaters) theaterOrder"
    by (rule filter_cong) (auto simp: list_ex_iff)
  have r: "?remaining = filter (\<lambda>i. i \<notin> set theaterOrder) (map col_id theaters)"
  proof -
    have "filter (\<lambda>t. col_id t \<notin> set ?stored) theaters =
          filter (\<lambda>t. col_id t \<notin> set theaterOrder) theaters"
      by (rule filter_cong [OF refl]) (auto simp: list_ex_iff)
    then show ?thesis by (simp add: filter_map o_def)
  qed
  have "set (?stored @ ?remaining) \<subseteq> col_id ` set theaters"
    by (auto simp: list_ex_iff)
  from map_filter_find_ids [OF this]
  have "map col_id (orderedTheaters theaterOrder theaters) = ?stored @ ?remaining"
    by (simp add: orderedTheaters_def Let_def)
  with s r show ?thesis by simp
qed

lemma every_index_eq:
  assumes "length xs = length ys"
  shows "list_all (\<lambda>idx. xs ! idx = ys ! idx) [0 ..< length xs] = (xs = ys)"
proof -
  have "list_all (\<lambda>idx. xs ! idx = ys ! idx) [0 ..< length xs] =
        (\<forall>i < length xs. xs ! i = ys ! i)"
    by (auto simp: list_all_iff)
  also have "\<dots> = (xs = ys)"
    using assms by (metis nth_equalityI)
  finally show ?thesis .
qed

lemma keep_prev_or_next:
  "(if length n = length p \<and> list_all (\<lambda>idx. n ! idx = p ! idx) [0 ..< length n] then p else n) = n"
proof (cases "length n = length p")
  case True
  then show ?thesis using every_index_eq [OF True] by simp
next
  case False
  then show ?thesis by simp
qed

lemma mergeTheaterOrder_eq:
  "mergeTheaterOrder theaters prev =
     filter (\<lambda>i. i \<in> col_id ` set theaters) prev @
     filter (\<lambda>i. i \<notin> set prev) (map col_id theaters)"
proof (cases "prev = []")
  case True
  then show ?thesis by (simp add: mergeTheaterOrder_def)
next
  case False
  let ?cur = "map col_id theaters"
  let ?valid = "filter (\<lambda>i. i \<in> set ?cur) prev"
  let ?missing = "filter (\<lambda>i. i \<notin> set ?valid) ?cur"
  have v: "?valid = filter (\<lambda>i. i \<in> col_id ` set theaters) prev"
    by (rule filter_cong [OF refl]) auto
  have m: "?missing = filter (\<lambda>i. i \<notin> set prev) ?cur"
    by (rule filter_cong [OF refl]) auto
  have "mergeTheaterOrder theaters prev = ?valid @ ?missing"
    using False
    unfolding mergeTheaterOrder_def Let_def keep_prev_or_next by simp
  with v m show ?thesis by simp
qed

section \<open>Availability when the anchor's end instant is truthy\<close>

lemma rowFlags_nonzero_anchor_end:
  assumes "selectedAnchorEnd parse movies selectedAnchor = Some (Num T)" and "T \<noteq> 0"
    and "find (\<lambda>st. st_id st = showtimeId) (showtimes movie) = Some st"
    and "getTime parse (st_startDate st) = Num s"
  shows "isAvailableAfterSelected
           (rowFlags parse movies selectedAnchor bufferMinutes hideSame modeIsHide movie showtimeId)
         = (s \<ge> T + bufferTimeMs bufferMinutes)"
    and "isBlockedBySelection
           (rowFlags parse movies selectedAnchor bufferMinutes hideSame modeIsHide movie showtimeId)
         = (\<not> isAnchorShowtime
               (rowFlags parse movies selectedAnchor bufferMinutes hideSame modeIsHide movie showtimeId)
            \<and> s < T + bufferTimeMs bufferMinutes)"
  using assms by (auto simp: rowFlags_def Let_def)

section \<open>Claims\<close>

text \<open>
  Claim C1. For every list of raw showtime records and every filter criteria,
  \<open>getPopularMovies\<close> returns a response, and every movie in its results has a non-empty
  \<open>poster_path\<close> and at least one showtime.
\<close>

theorem getPopularMovies_poster_and_showtime:
  "\<exists>resp. getPopularMovies fo (Inr data) = Inr resp \<and>
     (\<forall>m \<in> set (results resp). poster_path m \<noteq> [] \<and> showtimes m \<noteq> [])"
proof -
  let ?ms = "spokenFilter fo (subtitleFilter fo (moviesWithPosters fo data))"
  have sub: "set ?ms \<subseteq> set (moviesWithPosters fo data)"
    using set_spokenFilter set_subtitleFilter by blast
  have "poster_path m \<noteq> [] \<and> showtimes m \<noteq> []" if "m \<in> set ?ms" for m
  proof -
    from that sub have "m \<in> set (moviesWithPosters fo data)" by blast
    then obtain k f sts where g: "groupSpec (kept fo data) k = Some (f, sts)"
      and p: "posterPathOf f \<noteq> []" and m: "m = convertCinevilleFilmToMovie f sts"
      unfolding set_moviesWithPosters by blast
    from groupSpec_SomeD [OF g] have "sts \<noteq> []" by blast
    with p m show ?thesis by simp
  qed
  then show ?thesis by (simp add: getPopularMovies_def Let_def)
qed

theorem getPopularMovies_poster_and_showtime_witness:
  "\<exists>resp. getPopularMovies None (Inr exData) = Inr resp \<and>
     map movie_id (results resp) = [''F1''] \<and>
     (\<forall>m \<in> set (results resp). poster_path m \<noteq> [] \<and> showtimes m \<noteq> [])"
proof -
  have ids: "map movie_id (spokenFilter None (subtitleFilter None (moviesWithPosters None exData)))
      = [''F1'']"
    by code_simp
  from getPopularMovies_poster_and_showtime [of None exData]
  obtain resp where r: "getPopularMovies None (Inr exData) = Inr resp"
    and a: "\<forall>m \<in> set (results resp). poster_path m \<noteq> [] \<and> showtimes m \<noteq> []"
    by blast
  from r have "results resp = spokenFilter None (subtitleFilter None (moviesWithPosters None exData))"
    by (auto simp: getPopularMovies_def Let_def)
  with ids r a show ?thesis by auto
qed

text \<open>
  Claim C2. Given an anchor whose end instant is \<open>T\<close> and a buffer of \<open>B\<close> milliseconds, a
  non-anchor showing that starts at \<open>s\<close> is to be available iff \<open>s \<ge> T + B\<close> and blocked
  otherwise. The classification is guarded by the truthiness of the anchor's end instant
  (\<open>if (selectedAnchorEnd)\<close>), so an anchor that ends at instant \<open>0\<close> classifies nothing:
  with the anchor ending at \<open>T = 0\<close> and a buffer of 15 minutes, the other showing starts
  two hours later, at or after \<open>T + B\<close>, and is neither available nor blocked.
  (\<open>rowFlags_nonzero_anchor_end\<close> above is the classification for \<open>T \<noteq> 0\<close>.)
\<close>

theorem rowFlags_epoch_anchor_unclassified:
  "selectedAnchorEnd exParse [exEpochMovie] (Some exAnchor) = Some (Num 0) \<and>
   getTime exParse ''1970-01-01T02:00:00.000Z'' = Num 7200000 \<and>
   7200000 \<ge> 0 + bufferTimeMs 15 \<and>
   \<not> isAnchorShowtime
       (rowFlags exParse [exEpochMovie] (Some exAnchor) 15 False False exEpochMovie ''later'') \<and>
   \<not> isAvailableAfterSelected
       (rowFlags exParse [exEpochMovie] (Some exAnchor) 15 False False exEpochMovie ''later'') \<and>
   \<not> isBlockedBySelection
       (rowFlags exParse [exEpochMovie] (Some exAnchor) 15 False False exEpochMovie ''later'')"
  by (simp add: rowFlags_def selectedAnchorEnd_def exEpochMovie_def exAnchor_def exParse_def
      getTime_def bufferTimeMs_def exShowtime_def exFilm_def toMovieShowtime_def Let_def)




text \<open>
  Claim C4, as stated, says that a null or empty specials label matches nothing. With the
  empty string among the selected specials a showtime whose label is null is kept, since
  every string contains the empty string.
\<close>

theorem specials_empty_selection_keeps_null_label:
  "selectedSpecials (exFilters None [] [[]]) \<noteq> [] \<and>
   specials (exShowtime ''s1'' (exFilm ''F1'' (Some (exAsset ''p1.jpg'')) None)
        (exTheater ''A'' ''Kriterion'' ''Amsterdam'') ''2024-05-01T15:00'' ''2024-05-01T17:00'' None)
     = None \<and>
   \<not> skipShowtime (Some (exFilters None [] [[]]))
       (exShowtime ''s1'' (exFilm ''F1'' (Some (exAsset ''p1.jpg'')) None)
        (exTheater ''A'' ''Kriterion'' ''Amsterdam'') ''2024-05-01T15:00'' ''2024-05-01T17:00'' None)"
  by code_simp

text \<open>
  Claim C4, amended. When at least one special is selected, a raw showtime is kept before
  film grouping iff its specials label (null read as the empty string), lower-cased,
  contains at least one lower-cased selected special as a substring; a null or empty label
  is kept iff the empty string is among the selected specials; every group holds exactly
  the kept showtimes of its film and is not empty; and a film all of whose showtimes are
  dropped has no movie in the results.
\<close>

theorem specials_filter_before_grouping:
  assumes "selectedSpecials f \<noteq> []"
  shows "((\<not> skipShowtime (Some f) s) =
            (\<exists>sel \<in> set (selectedSpecials f).
               str_includes (toLowerCase (orEmpty (specials s))) (toLowerCase sel))) \<and>
         (orEmpty (specials s) = [] \<longrightarrow>
            (\<not> skipShowtime (Some f) s) = ([] \<in> set (selectedSpecials f))) \<and>
         (\<forall>k g sts. (k, g, sts) \<in> set (groupShowtimes (Some f) xs) \<longrightarrow>
            sts = filter (\<lambda>t. film_id (film t) = k \<and> \<not> skipShowtime (Some f) t) xs \<and> sts \<noteq> []) \<and>
         (\<forall>k r. (\<forall>t \<in> set xs. film_id (film t) = k \<longrightarrow> skipShowtime (Some f) t) \<and>
                 getPopularMovies (Some f) (Inr xs) = Inr r \<longrightarrow>
                 k \<notin> movie_id ` set (results r))"
proof (intro conjI allI impI)
  show "(\<not> skipShowtime (Some f) s) =
            (\<exists>sel \<in> set (selectedSpecials f).
               str_includes (toLowerCase (orEmpty (specials s))) (toLowerCase sel))"
    by (rule keep_iff [OF assms])
  show "(\<not> skipShowtime (Some f) s) = ([] \<in> set (selectedSpecials f))"
    if "orEmpty (specials s) = []"
    using that by (auto simp: keep_iff [OF assms] toLowerCase_def)
next
  fix k g sts assume "(k, g, sts) \<in> set (groupShowtimes (Some f) xs)"
  from group_showtimes_kept [OF this]
  show "sts = filter (\<lambda>t. film_id (film t) = k \<and> \<not> skipShowtime (Some f) t) xs" "sts \<noteq> []"
    by blast+
next
  fix k r
  assume "(\<forall>t \<in> set xs. film_id (film t) = k \<longrightarrow> skipShowtime (Some f) t) \<and>
                 getPopularMovies (Some f) (Inr xs) = Inr r"
  then show "k \<notin> movie_id ` set (results r)"
    using dropped_film_absent by blast
qed

theorem specials_filter_before_grouping_witness:
  "selectedSpecials (exFilters None [] [''3D'']) \<noteq> [] \<and>
   \<not> skipShowtime (Some (exFilters None [] [''3D''])) (ex3D ! 0) \<and>
   skipShowtime (Some (exFilters None [] [''3D''])) (ex3D ! 1) \<and>
   (\<exists>r. getPopularMovies (Some (exFilters None [] [''3D''])) (Inr ex3D) = Inr r \<and>
        ''F3'' \<notin> movie_id ` set (results r))"
proof -
  let ?f = "exFilters None [] [''3D'']"
  have ne: "selectedSpecials ?f \<noteq> []" by code_simp
  have a: "\<exists>sel \<in> set (selectedSpecials ?f).
        str_includes (toLowerCase (orEmpty (specials (ex3D ! 0)))) (toLowerCase sel)"
    by code_simp
  have b: "\<not> (\<exists>sel \<in> set (selectedSpecials ?f).
        str_includes (toLowerCase (orEmpty (specials (ex3D ! 1)))) (toLowerCase sel))"
    by code_simp
  have c: "\<forall>t \<in> set ex3D. film_id (film t) = ''F3'' \<longrightarrow>
      \<not> (\<exists>sel \<in> set (selectedSpecials ?f).
        str_includes (toLowerCase (orEmpty (specials t))) (toLowerCase sel))"
    by code_simp
  obtain r where r: "getPopularMovies (Some ?f) (Inr ex3D) = Inr r"
    by (simp add: results_getPopularMovies)
  from specials_filter_before_grouping [OF ne, of "ex3D ! 0" ex3D] a
  have k0: "\<not> skipShowtime (Some ?f) (ex3D ! 0)" by blast
  from specials_filter_before_grouping [OF ne, of "ex3D ! 1" ex3D] b
  have k1: "skipShowtime (Some ?f) (ex3D ! 1)" by blast
  have "\<forall>t \<in> set ex3D. film_id (film t) = ''F3'' \<longrightarrow> skipShowtime (Some ?f) t"
  proof (intro ballI impI)
    fix t assume "t \<in> set ex3D" "film_id (film t) = ''F3''"
    with c have "\<not> (\<exists>sel \<in> set (selectedSpecials ?f).
        str_includes (toLowerCase (orEmpty (specials t))) (toLowerCase sel))" by blast
    with specials_filter_before_grouping [OF ne, of t ex3D]
    show "skipShowtime (Some ?f) t" by blast
  qed
  with specials_filter_before_grouping [OF ne, of "ex3D ! 0" ex3D] r
  have "''F3'' \<notin> movie_id ` set (results r)" by blast
  with ne k0 k1 r show ?thesis by blast
qed

text \<open>
  Claim C5, as stated, bounds the effective buffer by 180 minutes. The value 181 typed
  into the input gives a buffer above \<open>180 * 60 * 1000\<close> milliseconds.
\<close>

theorem bufferTimeMs_exceeds_180_minutes:
  "\<not> bufferTimeMs (bufferMinutesFromInput (Num 181)) \<le> 180 * 60 * 1000"
  by (simp add: bufferTimeMs_def bufferMinutesFromInput_def)

text \<open>
  Claim C5, amended. The effective buffer is \<open>max 0 bufferMinutes * 60 * 1000\<close>: it is never
  negative, and it is at most \<open>180 * 60 * 1000\<close> exactly when \<open>bufferMinutes\<close> is at most 180;
  no upper clamp is applied.
\<close>

theorem bufferTimeMs_bounds:
  "bufferTimeMs bufferMinutes = max 0 bufferMinutes * 60 * 1000 \<and>
   0 \<le> bufferTimeMs bufferMinutes \<and>
   (bufferTimeMs bufferMinutes \<le> 180 * 60 * 1000) = (bufferMinutes \<le> 180)"
  by (auto simp: bufferTimeMs_def max_def)

theorem bufferTimeMs_bounds_witness:
  "bufferTimeMs 15 = 900000 \<and> bufferTimeMs (- 5) = 0 \<and> bufferTimeMs 180 \<le> 180 * 60 * 1000"
  using bufferTimeMs_bounds [of 15] bufferTimeMs_bounds [of "- 5"] bufferTimeMs_bounds [of 180]
  by simp

text \<open>
  Claim C6, as stated, has \<open>loadTheaters\<close> fail with \<open>UpstreamUnavailable\<close> when the first
  fetch errors. On empty caches and a rejected request it returns the empty list as a
  success, the same result as for an upstream that reports zero venues.
\<close>

theorem loadTheaters_error_is_empty_success:
  "theatersCache emptyCache = None \<and>
   fst (loadTheaters (Inl UpstreamUnavailable) emptyCache) = Inr [] \<and>
   fst (loadTheaters (Inl UpstreamUnavailable) emptyCache) \<noteq> Inl UpstreamUnavailable \<and>
   fst (loadTheaters (Inl UpstreamUnavailable) emptyCache) = fst (loadTheaters (Inr []) emptyCache)"
  by (simp add: loadTheaters_def emptyCache_def)

text \<open>
  Claim C6, amended. \<open>loadTheaters\<close> never fails: every call returns a list. If the first
  fetch errors (nothing cached yet), it returns the empty list and leaves the caches
  unchanged, so the next call fetches again; that result equals the one for an upstream
  reporting zero venues.
\<close>

theorem loadTheaters_never_fails:
  "(\<exists>ts. fst (loadTheaters request c) = Inr ts) \<and>
   (theatersCache c = None \<longrightarrow>
      loadTheaters (Inl e) c = (Inr [], c) \<and>
      fst (loadTheaters (Inl e) c) = fst (loadTheaters (Inr []) c))"
  by (auto simp: loadTheaters_def split: option.splits sum.splits)

theorem loadTheaters_never_fails_witness:
  "theatersCache emptyCache = None \<and>
   loadTheaters (Inl UpstreamUnavailable) emptyCache = (Inr [], emptyCache) \<and>
   (\<exists>ts. fst (loadTheaters (Inr exDirectory) emptyCache) = Inr ts)"
proof -
  have n: "theatersCache emptyCache = None" by (simp add: emptyCache_def)
  from loadTheaters_never_fails [of "Inr exDirectory" emptyCache UpstreamUnavailable] n
  show ?thesis by blast
qed

text \<open>
  Claim C7. For every persisted order \<open>P\<close> and every list \<open>V\<close> of current theater columns
  (in directory order), the ids of the ordered columns are the ids of \<open>P\<close> that occur in
  \<open>V\<close>, in their order in \<open>P\<close>, followed by the ids of \<open>V\<close> that \<open>P\<close> does not mention, in
  their order in \<open>V\<close>; the merge effect stores the same list when \<open>V\<close> is not empty.
\<close>

theorem theater_column_order:
  "map col_id (orderedTheaters P V) =
     filter (\<lambda>i. i \<in> col_id ` set V) P @ filter (\<lambda>i. i \<notin> set P) (map col_id V) \<and>
   (V \<noteq> [] \<longrightarrow>
      mergeNewTheaters True V P =
        filter (\<lambda>i. i \<in> col_id ` set V) P @ filter (\<lambda>i. i \<notin> set P) (map col_id V))"
  by (simp add: orderedTheaters_ids mergeNewTheaters_def mergeTheaterOrder_eq)

theorem theater_column_order_witness:
  "exCols \<noteq> [] \<and>
   map col_id (orderedTheaters [''B'', ''A''] exCols) = [''B'', ''A'', ''C''] \<and>
   mergeNewTheaters True exCols [''B'', ''A''] = [''B'', ''A'', ''C'']"
proof -
  have ne: "exCols \<noteq> []" by (simp add: exCols_def)
  have e: "filter (\<lambda>i. i \<in> col_id ` set exCols) [''B'', ''A''] @
           filter (\<lambda>i. i \<notin> set [''B'', ''A'']) (map col_id exCols) = [''B'', ''A'', ''C'']"
    by (simp add: exCols_def)
  from theater_column_order [of "[''B'', ''A'']" exCols] ne e show ?thesis by simp
qed

text \<open>
  Claim C8. If all records that share a film id carry the same film payload, then for
  every permutation of the input \<open>getPopularMovies\<close> returns the same set of movies up to
  the order of their lists (the same film fields, the same set of showtimes, the same
  three facet sets), and the same number of movies.
\<close>

theorem getPopularMovies_permutation_invariant:
  assumes "mset ys = mset xs" and "samePayload xs"
  shows "\<exists>r1 r2. getPopularMovies fo (Inr xs) = Inr r1 \<and> getPopularMovies fo (Inr ys) = Inr r2 \<and>
           movieView ` set (results r1) = movieView ` set (results r2) \<and>
           total_results r1 = total_results r2"
proof -
  from assms(1) have eq: "set xs = set ys" by (metis mset_eq_setD)
  show ?thesis
    unfolding results_getPopularMovies
    using view_image_eq [OF eq assms(2), of fo] length_results_eq [OF eq assms(2), of fo]
    by simp
qed

theorem getPopularMovies_permutation_invariant_witness:
  "mset (rev exData) = mset exData \<and> samePayload exData \<and>
   (\<exists>r1 r2. getPopularMovies None (Inr exData) = Inr r1 \<and>
      getPopularMovies None (Inr (rev exData)) = Inr r2 \<and>
      movieView ` set (results r1) = movieView ` set (results r2) \<and>
      total_results r1 = total_results r2)"
proof -
  have a: "mset (rev exData) = mset exData" by simp
  have b: "samePayload exData"
    by (simp add: samePayload_def exData_def exShowtime_def exFilm_def)
  from getPopularMovies_permutation_invariant [OF a b, of None] a b show ?thesis by simp
qed

text \<open>
  Claim C9. For every film group of the map, \<open>poster_path\<close> is the poster URL, else the
  cover URL, else the empty string; the film has a movie behind the poster gate iff its
  \<open>poster_path\<close> is not empty; a film without a poster whose cover has a non-empty URL
  passes the gate with the cover URL as \<open>poster_path\<close>; and when no subtitle and no spoken
  language is selected, the results are exactly the movies behind the gate.
\<close>

theorem poster_gate_cover_fallback:
  assumes g: "(k, f, sts) \<in> set (groupShowtimes fo xs)"
  shows "poster_path (convertCinevilleFilmToMovie f sts) =
            (let coverUrl = (case cover f of None \<Rightarrow> [] | Some c \<Rightarrow> url c)
             in case poster f of None \<Rightarrow> coverUrl
                | Some p \<Rightarrow> if url p \<noteq> [] then url p else coverUrl) \<and>
         ((\<exists>m \<in> set (moviesWithPosters fo xs). movie_id m = k) =
            (poster_path (convertCinevilleFilmToMovie f sts) \<noteq> [])) \<and>
         (\<forall>c. poster f = None \<and> cover f = Some c \<and> url c \<noteq> [] \<longrightarrow>
            (\<exists>m \<in> set (moviesWithPosters fo xs). movie_id m = k \<and> poster_path m = url c)) \<and>
         ((case fo of None \<Rightarrow> True
           | Some fl \<Rightarrow> selectedSubtitleLanguages fl = [] \<and> selectedSpokenLanguages fl = []) \<longrightarrow>
          getPopularMovies fo (Inr xs) =
            Inr \<lparr> page = 1, results = moviesWithPosters fo xs, total_pages = 1,
                  total_results = length (moviesWithPosters fo xs) \<rparr>)"
proof (intro conjI allI impI)
  show "poster_path (convertCinevilleFilmToMovie f sts) =
            (let coverUrl = (case cover f of None \<Rightarrow> [] | Some c \<Rightarrow> url c)
             in case poster f of None \<Rightarrow> coverUrl
                | Some p \<Rightarrow> if url p \<noteq> [] then url p else coverUrl)"
    by (simp add: posterPathOf_def assetUrl_def Let_def split: option.splits)
  have fid: "film_id f = k" by (rule group_film_id [OF g])
  show "(\<exists>m \<in> set (moviesWithPosters fo xs). movie_id m = k) =
            (poster_path (convertCinevilleFilmToMovie f sts) \<noteq> [])"
  proof
    assume "\<exists>m \<in> set (moviesWithPosters fo xs). movie_id m = k"
    then obtain m where "m \<in> set (moviesWithPosters fo xs)" and mk: "movie_id m = k" by blast
    then obtain k' f' sts' where g': "(k', f', sts') \<in> set (groupShowtimes fo xs)"
      and p: "posterPathOf f' \<noteq> []" and mc: "m = convertCinevilleFilmToMovie f' sts'"
      unfolding mem_moviesWithPosters by blast
    from mk mc have "film_id f' = k" by simp
    with group_film_id [OF g'] have "k' = k" by simp
    with group_unique [OF g] g' have "f' = f" by blast
    with p show "poster_path (convertCinevilleFilmToMovie f sts) \<noteq> []" by simp
  next
    assume "poster_path (convertCinevilleFilmToMovie f sts) \<noteq> []"
    then have "convertCinevilleFilmToMovie f sts \<in> set (moviesWithPosters fo xs)"
      using group_passes_gate [OF g] by simp
    then show "\<exists>m \<in> set (moviesWithPosters fo xs). movie_id m = k"
      using fid by force
  qed
next
  fix c assume a: "poster f = None \<and> cover f = Some c \<and> url c \<noteq> []"
  then have p: "posterPathOf f = url c" by (simp add: posterPathOf_def assetUrl_def)
  with a have "convertCinevilleFilmToMovie f sts \<in> set (moviesWithPosters fo xs)"
    using group_passes_gate [OF g] by simp
  then show "\<exists>m \<in> set (moviesWithPosters fo xs). movie_id m = k \<and> poster_path m = url c"
    using p group_film_id [OF g] by force
next
  assume "case fo of None \<Rightarrow> True
           | Some fl \<Rightarrow> selectedSubtitleLanguages fl = [] \<and> selectedSpokenLanguages fl = []"
  then have "subtitleFilter fo ms = ms" and "spokenFilter fo ms = ms" for ms
    by (cases fo; simp add: subtitleFilter_def spokenFilter_def)+
  then show "getPopularMovies fo (Inr xs) =
            Inr \<lparr> page = 1, results = moviesWithPosters fo xs, total_pages = 1,
                  total_results = length (moviesWithPosters fo xs) \<rparr>"
    by (simp add: getPopularMovies_def Let_def)
qed

theorem poster_gate_cover_fallback_witness:
  "(''F3'', exFilm ''F3'' None (Some (exAsset ''c3.jpg'')), [exCover ! 0])
     \<in> set (groupShowtimes None exCover) \<and>
   (''F2'', exFilm ''F2'' None None, [exCover ! 1]) \<in> set (groupShowtimes None exCover) \<and>
   (\<exists>m \<in> set (moviesWithPosters None exCover). movie_id m = ''F3'' \<and> poster_path m = ''c3.jpg'') \<and>
   \<not> (\<exists>m \<in> set (moviesWithPosters None exCover). movie_id m = ''F2'')"
proof -
  have gs: "groupShowtimes None exCover =
     [(''F3'', exFilm ''F3'' None (Some (exAsset ''c3.jpg'')), [exCover ! 0]),
      (''F2'', exFilm ''F2'' None None, [exCover ! 1])]"
    by (simp add: groupShowtimes_def groupStep_def skipShowtime_def exCover_def exShowtime_def
        exFilm_def Let_def)
  have g3: "(''F3'', exFilm ''F3'' None (Some (exAsset ''c3.jpg'')), [exCover ! 0])
      \<in> set (groupShowtimes None exCover)"
    by (simp only: gs list.set insert_iff simp_thms)
  have g2: "(''F2'', exFilm ''F2'' None None, [exCover ! 1]) \<in> set (groupShowtimes None exCover)"
    by (simp only: gs list.set insert_iff simp_thms)
  have p3: "poster (exFilm ''F3'' None (Some (exAsset ''c3.jpg''))) = None \<and>
      cover (exFilm ''F3'' None (Some (exAsset ''c3.jpg''))) = Some (exAsset ''c3.jpg'') \<and>
      url (exAsset ''c3.jpg'') \<noteq> []"
    by (simp add: exFilm_def exAsset_def)
  have u: "url (exAsset ''c3.jpg'') = ''c3.jpg''" by (simp add: exAsset_def)
  have p2: "poster_path (convertCinevilleFilmToMovie (exFilm ''F2'' None None) [exCover ! 1]) = []"
    by (simp add: posterPathOf_def assetUrl_def exFilm_def)
  from poster_gate_cover_fallback [OF g3]
  have "\<forall>c. poster (exFilm ''F3'' None (Some (exAsset ''c3.jpg''))) = None \<and>
      cover (exFilm ''F3'' None (Some (exAsset ''c3.jpg''))) = Some c \<and> url c \<noteq> [] \<longrightarrow>
      (\<exists>m \<in> set (moviesWithPosters None exCover). movie_id m = ''F3'' \<and> poster_path m = url c)"
    by blast
  with p3 u
  have a: "\<exists>m \<in> set (moviesWithPosters None exCover). movie_id m = ''F3'' \<and> poster_path m = ''c3.jpg''"
    by metis
  from poster_gate_cover_fallback [OF g2]
  have "(\<exists>m \<in> set (moviesWithPosters None exCover). movie_id m = ''F2'') =
      (poster_path (convertCinevilleFilmToMovie (exFilm ''F2'' None None) [exCover ! 1]) \<noteq> [])"
    by blast
  with p2 have b: "\<not> (\<exists>m \<in> set (moviesWithPosters None exCover). movie_id m = ''F2'')"
    by simp
  from g3 g2 a b show ?thesis by blast
qed

text \<open>
  Claim C10. Whenever \<open>resolveVenueIds\<close> yields the empty list, every filter object that
  \<open>buildApiFilters\<close> returns has no \<open>venueId\<close> key; it returns one whenever
  \<open>getDateRange\<close> succeeds, and otherwise fails with the error of \<open>getDateRange\<close> and
  unchanged caches. An example is a selected city that no theater of the directory is in.
\<close>

theorem buildApiFilters_omits_empty_venueId:
  assumes "fst (resolveVenueIds fo request c) = Inr []"
  shows "(\<forall>af dr c'. buildApiFilters env fo incl request c = (Inr (af, dr), c') \<longrightarrow>
            api_venueId af = None) \<and>
         (\<forall>dr. getDateRange env fo = Inr dr \<longrightarrow>
            (\<exists>af c'. buildApiFilters env fo incl request c = (Inr (af, dr), c') \<and>
               api_venueId af = None)) \<and>
         (\<forall>e. getDateRange env fo = Inl e \<longrightarrow>
            buildApiFilters env fo incl request c = (Inl e, c))"
  using assms by (auto simp: buildApiFilters_def split: prod.splits sum.splits)

theorem buildApiFilters_omits_empty_venueId_witness:
  "fst (resolveVenueIds (Some (exFilters (Some ''Atlantis'') [] [])) (Inr exDirectory) emptyCache)
     = Inr [] \<and>
   getDateRange exEnv (Some (exFilters (Some ''Atlantis'') [] []))
     = Inr \<lparr> gte = ''2024-05-01T10:00:00.000Z'', lt = ''2024-05-01T23:59:59.999Z'' \<rparr> \<and>
   (\<exists>af c'. buildApiFilters exEnv (Some (exFilters (Some ''Atlantis'') [] [])) True
        (Inr exDirectory) emptyCache
      = (Inr (af, \<lparr> gte = ''2024-05-01T10:00:00.000Z'', lt = ''2024-05-01T23:59:59.999Z'' \<rparr>), c') \<and>
      api_venueId af = None)"
proof -
  have e: "fst (resolveVenueIds (Some (exFilters (Some ''Atlantis'') [] [])) (Inr exDirectory)
             emptyCache) = Inr []"
    by (simp add: resolveVenueIds_def getTheaterIdsByCity_def loadTheaters_def emptyCache_def
        exFilters_def exDirectory_def exTheater_def Let_def)
  have d: "getDateRange exEnv (Some (exFilters (Some ''Atlantis'') [] []))
     = Inr \<lparr> gte = ''2024-05-01T10:00:00.000Z'', lt = ''2024-05-01T23:59:59.999Z'' \<rparr>"
    by (simp add: getDateRange_def truthyString_def setHours_def toISOString_def exEnv_def
        exISO_def exFilters_def Let_def)
  from buildApiFilters_omits_empty_venueId [OF e, of exEnv True] d e show ?thesis by blast
qed

end
